theory Spec2Isabelle
  imports Complex_Main "HOL-Library.Sublist"
begin

section \<open>JavaScript values used by the listing application\<close>

text \<open>
  A JavaScript \<open>number\<close>: the three special values and the finite ones. Page numbers,
  limits and counts are integers (\<open>int jsnum\<close>); a price may have a fraction
  (\<open>rat jsnum\<close>). Finite values are exact: the model covers the safe range of a double
  (integers below \<open>2 ^ 53\<close>), where the arithmetic of the handlers is exact too.
\<close>

datatype 'a jsnum = NaN | PInf | NInf | Fin 'a

text \<open>The relational operator \<open>a < b\<close>; \<open>a > b\<close> is \<open>js_lt b a\<close>.\<close>

fun js_lt :: "('a::linorder) jsnum \<Rightarrow> 'a jsnum \<Rightarrow> bool" where
  "js_lt NaN _ = False"
| "js_lt _ NaN = False"
| "js_lt (Fin a) (Fin b) = (a < b)"
| "js_lt PInf _ = False"
| "js_lt _ PInf = True"
| "js_lt NInf (Fin b) = True"
| "js_lt _ NInf = False"





text \<open>
  \<open>String(n)\<close> for a number: decimal digits with a sign for the integers (below
  \<open>10 ^ 21\<close>, where JavaScript prints no exponent).
\<close>

fun digits :: "nat \<Rightarrow> string" where
  "digits n = (if n < 10 then [''0123456789'' ! n]
               else digits (n div 10) @ [''0123456789'' ! (n mod 10)])"

fun js_String :: "int jsnum \<Rightarrow> string" where
  "js_String NaN = ''NaN''"
| "js_String PInf = ''Infinity''"
| "js_String NInf = ''-Infinity''"
| "js_String (Fin n) = (if n < 0 then CHR ''-'' # digits (nat (- n)) else digits (nat n))"

text \<open>
  \<open>parseInt(s)\<close> with no radix: leading white space is skipped, then an optional
  sign, then \<open>0x\<close> or \<open>0X\<close> selects base 16, then the longest run of digits of the
  base is read; no digit at all is \<open>NaN\<close>. Strings are byte lists, so the white space
  skipped is the ASCII one.
\<close>

fun index_of :: "'a \<Rightarrow> 'a list \<Rightarrow> nat option" where
  "index_of x [] = None"
| "index_of x (y # ys) = (if x = y then Some 0 else map_option Suc (index_of x ys))"





section \<open>Data model\<close>

text \<open>
  The body of a creation request after validation (\<open>ApartmentInput\<close>), and the stored
  record, which adds the generated identifier and the creation time.
\<close>

record ApartmentInput =
  name :: string
  unitNumber :: string
  project :: string
  description :: string
  price :: "rat jsnum"
  contactNumber :: string
  imageUrls :: "string list"

record Apartment = ApartmentInput +
  id_apartment :: nat
  createdAt :: nat

text \<open>
  \<open>PaginationInfo\<close>. The handler fills it with numbers (\<open>'n = int jsnum\<close>); the
  client reads it from JSON, where a number is finite or \<open>null\<close> (\<open>'n = int option\<close>).
\<close>

record 'n PaginationInfo =
  p_currentPage :: 'n
  p_totalPages :: 'n
  p_totalCount :: 'n
  p_hasNextPage :: bool
  p_hasPrevPage :: bool
  p_limit :: 'n


text \<open>A JSON value used as a number: \<open>null\<close> converts to zero.\<close>

fun number_of_json :: "int option \<Rightarrow> int jsnum" where
  "number_of_json None = Fin 0"
| "number_of_json (Some n) = Fin n"


section \<open>The fetch coordinator (hooks/useApartments.ts)\<close>

text \<open>
  The query string as \<open>URLSearchParams\<close> holds it: keys with their values, in order.
  \<open>get\<close> returns the first value of a key.
\<close>

type_synonym params = "(string \<times> string) list"

definition buildParams :: "int jsnum \<Rightarrow> int jsnum \<Rightarrow> string \<Rightarrow> params" where
  "buildParams limit page searchQuery =
     [(''page'', js_String page), (''limit'', js_String limit)]
     @ (if searchQuery \<noteq> [] then [(''search'', searchQuery)] else [])"

text \<open>The body of a \<open>200\<close> response as the hook reads it: either field may be absent.\<close>

record ApiData =
  data_apartments :: "Apartment list option"
  data_pagination :: "int option PaginationInfo option"

text \<open>
  What the \<open>catch\<close> clause can see: the \<open>DOMException\<close> named \<open>AbortError\<close>, an
  \<open>Error\<close> with its message, or any other thrown value.
\<close>

datatype thrown = AbortError | ErrorObject string | OtherValue

text \<open>
  How the awaited request ends: a response with \<open>res.ok\<close> and its JSON body, a
  response without \<open>res.ok\<close> and its text, or a rejection of \<open>fetch\<close>, of
  \<open>res.text()\<close> or of \<open>res.json()\<close>.
\<close>

datatype outcome = Json ApiData | NotOk string | Rejected thrown

text \<open>
  The state of the hook: the seven \<open>useState\<close> cells, the \<open>abortRef\<close> cell, and what
  the hook has handed to the browser: the controllers it created (\<open>signals c\<close> is
  \<open>controller.signal.aborted\<close> of controller \<open>c\<close>, \<open>next_controller\<close> the next
  object to allocate), the address bar after \<open>router.replace\<close>, and the requests that
  were issued and have not settled, each with the \<open>page\<close> argument of its call.
\<close>

record coordinator =
  apartments :: "Apartment list"
  search :: string
  currentPage :: "int jsnum"
  limit :: "int jsnum"
  pagination :: "int option PaginationInfo option"
  isLoading :: bool
  error :: "string option"
  abortRef :: "nat option"
  signals :: "nat \<Rightarrow> bool"
  next_controller :: nat
  url :: params
  in_flight :: "nat \<rightharpoonup> (int jsnum \<times> params)"

text \<open>
  \<open>fetchApartments(page, searchQuery)\<close> up to its \<open>await\<close>: the flags, the abort of
  the previous controller, the new controller, the address bar, the request.
\<close>

definition fetchApartments :: "int jsnum \<Rightarrow> string \<Rightarrow> coordinator \<Rightarrow> coordinator" where
  "fetchApartments page searchQuery s =
     (let s1 = s\<lparr>isLoading := True, error := None\<rparr>;
          s2 = (case abortRef s1 of
                  Some previous \<Rightarrow> s1\<lparr>signals := (signals s1)(previous := True)\<rparr>
                | None \<Rightarrow> s1);
          controller = next_controller s2;
          s3 = s2\<lparr>signals := (signals s2)(controller := False),
                  next_controller := Suc controller,
                  abortRef := Some controller\<rparr>;
          ps = buildParams (limit s3) page searchQuery
      in s3\<lparr>url := ps, in_flight := (in_flight s3)(controller \<mapsto> (page, ps))\<rparr>)"

text \<open>
  The rest of \<open>fetchApartments\<close>, from the \<open>await\<close> on: the \<open>try\<close> body after the
  response, the \<open>catch\<close> clause and the \<open>finally\<close> clause, which runs on every path,
  the early \<open>return\<close> of the abort branch included.
\<close>

definition resume :: "int jsnum \<Rightarrow> outcome \<Rightarrow> coordinator \<Rightarrow> coordinator" where
  "resume page out s =
     (let s1 =
        (case out of
           Json d \<Rightarrow>
             s\<lparr>apartments := (case data_apartments d of Some as \<Rightarrow> as | None \<Rightarrow> []),
               pagination := data_pagination d,
               currentPage :=
                 (case data_pagination d of
                    Some p \<Rightarrow> (case p_currentPage p of Some n \<Rightarrow> Fin n | None \<Rightarrow> page)
                  | None \<Rightarrow> page)\<rparr>
         | NotOk txt \<Rightarrow> s\<lparr>error := Some (if txt \<noteq> [] then txt else ''Failed to fetch'')\<rparr>
         | Rejected AbortError \<Rightarrow> s
         | Rejected (ErrorObject message) \<Rightarrow> s\<lparr>error := Some message\<rparr>
         | Rejected OtherValue \<Rightarrow> s\<lparr>error := Some ''Failed to fetch''\<rparr>)
      in s1\<lparr>isLoading := False\<rparr>)"

text \<open>
  The browser settles the request of controller \<open>c\<close> with \<open>out\<close>. A request whose
  signal was aborted rejects with the \<open>AbortError\<close> whatever the network brought; a
  controller with no request in flight settles nothing.
\<close>

definition settle :: "nat \<Rightarrow> outcome \<Rightarrow> coordinator \<Rightarrow> coordinator" where
  "settle c out s =
     (case in_flight s c of
        None \<Rightarrow> s
      | Some (page, ps) \<Rightarrow>
          resume page (if signals s c then Rejected AbortError else out)
            (s\<lparr>in_flight := (in_flight s)(c := None)\<rparr>))"

definition goToPage :: "int jsnum \<Rightarrow> coordinator \<Rightarrow> coordinator" where
  "goToPage page s =
     (if js_lt page (Fin 1) then s
      else if (case pagination s of
                 Some p \<Rightarrow> js_lt (number_of_json (p_totalPages p)) page
               | None \<Rightarrow> False) then s
      else fetchApartments page (search s) (s\<lparr>currentPage := page\<rparr>))"

definition submitSearch :: "string \<Rightarrow> coordinator \<Rightarrow> coordinator" where
  "submitSearch q s = fetchApartments (Fin 1) q (s\<lparr>search := q\<rparr>)"

definition clearSearch :: "coordinator \<Rightarrow> coordinator" where
  "clearSearch s = fetchApartments (Fin 1) [] (s\<lparr>search := []\<rparr>)"

text \<open>
  Everything that can happen to the hook after it is mounted: a call of one of its
  four operations, or the browser settling a request.
\<close>

datatype event =
    FetchApartments "int jsnum" string
  | GoToPage "int jsnum"
  | SubmitSearch string
  | ClearSearch
  | Settle nat outcome

fun step :: "coordinator \<Rightarrow> event \<Rightarrow> coordinator" where
  "step s (FetchApartments page q) = fetchApartments page q s"
| "step s (GoToPage page) = goToPage page s"
| "step s (SubmitSearch q) = submitSearch q s"
| "step s ClearSearch = clearSearch s"
| "step s (Settle c out) = settle c out s"

definition run :: "coordinator \<Rightarrow> event list \<Rightarrow> coordinator" where
  "run s es = foldl step s es"

text \<open>
  The hook when it is created, before the effect that issues the first fetch:
  the initial values of the state cells, from the address bar.
\<close>

definition mounted :: "int jsnum \<Rightarrow> string \<Rightarrow> int jsnum \<Rightarrow> coordinator" where
  "mounted initialPage initialQuery initialLimitQuery =
     \<lparr>apartments = [], search = initialQuery, currentPage = initialPage,
      limit = initialLimitQuery, pagination = None, isLoading = False, error = None,
      abortRef = None, signals = (\<lambda>c. False), next_controller = 0, url = [],
      in_flight = Map.empty\<rparr>"

text \<open>The four fields a committed response writes.\<close>

definition committed ::
  "coordinator \<Rightarrow> Apartment list \<times> int option PaginationInfo option \<times> int jsnum \<times> string option" where
  "committed s = (apartments s, pagination s, currentPage s, error s)"


text \<open>
  A controller the hook has created is \<open>superseded\<close> once its signal is aborted; until
  then it is the one \<open>abortRef\<close> holds.
\<close>

definition superseded :: "nat \<Rightarrow> coordinator \<Rightarrow> bool" where
  "superseded c s = (c < next_controller s \<and> signals s c)"

definition latest_or_superseded :: "nat \<Rightarrow> coordinator \<Rightarrow> bool" where
  "latest_or_superseded c s = (c < next_controller s \<and> (abortRef s = Some c \<or> signals s c))"

section \<open>The record store\<close>

text \<open>
  The \<open>where\<close> argument the listing handler builds: the empty object, or the \<open>OR\<close> of
  three case-insensitive \<open>contains\<close> conditions on \<open>name\<close>, \<open>unitNumber\<close> and
  \<open>project\<close>.
\<close>

datatype where_clause = NoFilter | ContainsAny string

text \<open>
  The Prisma client, as the handlers use it: \<open>count\<close>, \<open>findMany\<close> (with \<open>where\<close>,
  \<open>skip\<close>, \<open>take\<close>, ordered by \<open>createdAt\<close> descending) and \<open>create\<close>, over a
  database \<open>'db\<close>. A call that throws returns \<open>None\<close>. The client is a parameter of
  the handlers: the library is not part of the repository.
\<close>

record 'db prisma =
  count_apartments :: "where_clause \<Rightarrow> 'db \<Rightarrow> nat option"
  findMany :: "where_clause \<Rightarrow> int jsnum \<Rightarrow> int jsnum \<Rightarrow> 'db \<Rightarrow> Apartment list option"
  create :: "ApartmentInput \<Rightarrow> 'db \<Rightarrow> (Apartment \<times> 'db) option"

text \<open>\<open>s.includes(sub)\<close> and ASCII lower case.\<close>

fun includes_str :: "string \<Rightarrow> string \<Rightarrow> bool" where
  "includes_str [] sub = (sub = [])"
| "includes_str (c # cs) sub = (prefix sub (c # cs) \<or> includes_str cs sub)"

definition lower_char :: "char \<Rightarrow> char" where
  "lower_char c =
     (case index_of c ''ABCDEFGHIJKLMNOPQRSTUVWXYZ'' of
        Some i \<Rightarrow> ''abcdefghijklmnopqrstuvwxyz'' ! i
      | None \<Rightarrow> c)"

definition toLowerCase :: "string \<Rightarrow> string" where
  "toLowerCase s = map lower_char s"

text \<open>
  Modelled from the spec: the record store behind the Prisma client (the database and
  the schema of the \<open>Apartment\<close> table are not among the sources). Section 4.1 gives
  its contract: \<open>count(filter)\<close>; \<open>list(filter, offset, limit)\<close>, newest first;
  \<open>insert(record)\<close>, which stores the record with a generated id and creation time.
  A filter matches a case-insensitive substring of \<open>name\<close>, \<open>unitNumber\<close> or
  \<open>project\<close>. A \<open>skip\<close> or \<open>take\<close> that is not a non-negative integer is outside the
  contract and is refused here; no theorem below depends on that choice.
\<close>

record database =
  rows :: "Apartment list"
  next_id :: nat
  clock :: nat

fun matches :: "where_clause \<Rightarrow> Apartment \<Rightarrow> bool" where
  "matches NoFilter a = True"
| "matches (ContainsAny q) a =
     (includes_str (toLowerCase (name a)) (toLowerCase q)
      \<or> includes_str (toLowerCase (unitNumber a)) (toLowerCase q)
      \<or> includes_str (toLowerCase (project a)) (toLowerCase q))"

fun insert_newest :: "Apartment \<Rightarrow> Apartment list \<Rightarrow> Apartment list" where
  "insert_newest a [] = [a]"
| "insert_newest a (b # bs) =
     (if createdAt b \<le> createdAt a then a # b # bs else b # insert_newest a bs)"

definition newest_first :: "Apartment list \<Rightarrow> Apartment list" where
  "newest_first as = foldr insert_newest as []"

definition store_count :: "where_clause \<Rightarrow> database \<Rightarrow> nat option" where
  "store_count w db = Some (length (filter (matches w) (rows db)))"

definition store_list ::
  "where_clause \<Rightarrow> int jsnum \<Rightarrow> int jsnum \<Rightarrow> database \<Rightarrow> Apartment list option" where
  "store_list w skip tk db =
     (case (skip, tk) of
        (Fin offset, Fin amount) \<Rightarrow>
          if 0 \<le> offset \<and> 0 \<le> amount
          then Some (take (nat amount) (drop (nat offset) (newest_first (filter (matches w) (rows db)))))
          else None
      | _ \<Rightarrow> None)"

definition stored_record :: "ApartmentInput \<Rightarrow> nat \<Rightarrow> nat \<Rightarrow> Apartment" where
  "stored_record d i t =
     \<lparr>name = name d, unitNumber = unitNumber d, project = project d,
      description = description d, price = price d,
      contactNumber = contactNumber d, imageUrls = imageUrls d,
      id_apartment = i, createdAt = t\<rparr>"

definition store_insert :: "ApartmentInput \<Rightarrow> database \<Rightarrow> (Apartment \<times> database) option" where
  "store_insert d db =
     (let a = stored_record d (next_id db) (clock db)
      in Some (a, db\<lparr>rows := rows db @ [a], next_id := Suc (next_id db),
                      clock := Suc (clock db)\<rparr>))"

definition store :: "database prisma" where
  "store = \<lparr>count_apartments = store_count, findMany = store_list, create = store_insert\<rparr>"

section \<open>The listing endpoint (app/api/apartments/route.ts, GET)\<close>









section \<open>The file endpoint (GET and HEAD of /api/files/{filename})\<close>

text \<open>
  POSIX \<open>path.normalize\<close> and \<open>path.join\<close> of Node.js: the path is cut at its
  slashes; empty segments and \<open>.\<close> are dropped, \<open>..\<close> removes the segment before
  it (at the root of an absolute path it is dropped, at the start of a relative path
  it is kept); a trailing slash is kept.
\<close>

fun split_slash :: "string \<Rightarrow> string \<Rightarrow> string list" where
  "split_slash [] cur = [rev cur]"
| "split_slash (c # cs) cur =
     (if c = CHR ''/'' then rev cur # split_slash cs [] else split_slash cs (c # cur))"

fun normalize_segments :: "bool \<Rightarrow> string list \<Rightarrow> string list \<Rightarrow> string list" where
  "normalize_segments allowAboveRoot [] acc = rev acc"
| "normalize_segments allowAboveRoot (seg # segs) acc =
     (if seg = [] \<or> seg = ''.'' then normalize_segments allowAboveRoot segs acc
      else if seg = ''..'' then
        (case acc of
           [] \<Rightarrow> normalize_segments allowAboveRoot segs (if allowAboveRoot then [seg] else [])
         | prev # older \<Rightarrow>
             if prev = ''..'' then normalize_segments allowAboveRoot segs (seg # acc)
             else normalize_segments allowAboveRoot segs older)
      else normalize_segments allowAboveRoot segs (seg # acc))"

fun join_slash :: "string list \<Rightarrow> string" where
  "join_slash [] = []"
| "join_slash [seg] = seg"
| "join_slash (seg # segs) = seg @ ''/'' @ join_slash segs"

definition path_normalize :: "string \<Rightarrow> string" where
  "path_normalize p =
     (if p = [] then ''.''
      else
        (let isAbsolute = (hd p = CHR ''/'');
             trailingSeparator = (last p = CHR ''/'');
             body = join_slash (normalize_segments (\<not> isAbsolute) (split_slash p []) [])
         in if body = [] then (if isAbsolute then ''/'' else if trailingSeparator then ''./'' else ''.'')
            else (if isAbsolute then ''/'' else []) @ body @ (if trailingSeparator then ''/'' else [])))"

definition path_join :: "string \<Rightarrow> string \<Rightarrow> string" where
  "path_join a b =
     path_normalize (if a = [] then b else if b = [] then a else a @ ''/'' @ b)"

text \<open>
  \<open>UPLOAD_DIR = path.resolve(process.cwd(), "files", "uploads")\<close>, for the absolute
  working directory \<open>cwd\<close> of the server: the joined path, normalised, with no trailing
  slash.
\<close>

definition UPLOAD_DIR :: "string \<Rightarrow> string" where
  "UPLOAD_DIR cwd =
     (let p = path_normalize (cwd @ ''/files/uploads'')
      in if 1 < length p \<and> last p = CHR ''/'' then butlast p else p)"

text \<open>A path is inside a directory when it is the directory or lies below it.\<close>

definition inside :: "string \<Rightarrow> string \<Rightarrow> bool" where
  "inside dir p = (p = dir \<or> prefix (dir @ ''/'') p)"

text \<open>
  \<open>path.extname\<close> of a name without a slash: from the last dot to the end, and empty
  when there is no dot, when the only dot is the first character, and for \<open>..\<close>.
\<close>

fun last_dot :: "string \<Rightarrow> nat \<Rightarrow> nat option" where
  "last_dot [] i = None"
| "last_dot (c # cs) i =
     (case last_dot cs (Suc i) of
        Some j \<Rightarrow> Some j
      | None \<Rightarrow> if c = CHR ''.'' then Some i else None)"

definition extname :: "string \<Rightarrow> string" where
  "extname f =
     (case last_dot f 0 of
        None \<Rightarrow> []
      | Some i \<Rightarrow> if i = 0 \<or> f = ''..'' then [] else drop i f)"

text \<open>
  The file system the handlers read: a path names a file with its bytes, a
  directory, or nothing. \<open>existsSync\<close> never throws; \<open>readFileSync\<close> throws (\<open>None\<close>)
  on anything but a file. Every call is recorded, so that a handler's result shows
  which paths it touched.
\<close>

datatype node = File string | Directory

type_synonym filesystem = "string \<rightharpoonup> node"

datatype fs_call = ExistsSync string | ReadFileSync string

definition existsSync :: "filesystem \<Rightarrow> string \<Rightarrow> bool" where
  "existsSync fs p = (fs p \<noteq> None)"

definition readFileSync :: "filesystem \<Rightarrow> string \<Rightarrow> string option" where
  "readFileSync fs p = (case fs p of Some (File bytes) \<Rightarrow> Some bytes | _ \<Rightarrow> None)"

datatype payload = JsonError string | Bytes string | NoBody

record file_response =
  status :: nat
  headers :: "(string \<times> string) list"
  payload :: payload

definition mimeTypes :: "(string \<times> string) list" where
  "mimeTypes =
     [(''.jpg'', ''image/jpeg''), (''.jpeg'', ''image/jpeg''),
      (''.png'', ''image/png''), (''.gif'', ''image/gif'')]"

definition GET_file :: "string \<Rightarrow> filesystem \<Rightarrow> string \<Rightarrow> file_response \<times> fs_call list" where
  "GET_file cwd fs filename =
     (if includes_str filename ''..'' \<or> includes_str filename ''/''
      then (\<lparr>status = 400, headers = [], payload = JsonError ''Invalid filename''\<rparr>, [])
      else
        (let filePath = path_join (UPLOAD_DIR cwd) filename
         in if \<not> existsSync fs filePath
            then (\<lparr>status = 404, headers = [], payload = JsonError ''File not found''\<rparr>,
                  [ExistsSync filePath])
            else
              (case readFileSync fs filePath of
                 None \<Rightarrow>
                   (\<lparr>status = 500, headers = [], payload = JsonError ''Failed to serve file''\<rparr>,
                    [ExistsSync filePath, ReadFileSync filePath])
               | Some fileBuffer \<Rightarrow>
                   (let fileExt = toLowerCase (extname filename);
                        contentType = (case map_of mimeTypes fileExt of
                                         Some m \<Rightarrow> m
                                       | None \<Rightarrow> ''application/octet-stream'')
                    in (\<lparr>status = 200,
                         headers = [(''Content-Type'', contentType),
                                    (''Content-Disposition'',
                                     ''inline; filename=\"'' @ filename @ ''\"'')],
                         payload = Bytes fileBuffer\<rparr>,
                        [ExistsSync filePath, ReadFileSync filePath])))))"

definition HEAD_file :: "string \<Rightarrow> filesystem \<Rightarrow> string \<Rightarrow> file_response \<times> fs_call list" where
  "HEAD_file cwd fs filename =
     (let filePath = path_join (UPLOAD_DIR cwd) filename
      in if existsSync fs filePath
         then (\<lparr>status = 200, headers = [], payload = NoBody\<rparr>, [ExistsSync filePath])
         else (\<lparr>status = 404, headers = [], payload = NoBody\<rparr>, [ExistsSync filePath]))"

section \<open>The creation endpoint (lib/validations/Apartment.ts and route.ts, POST)\<close>

text \<open>A parsed JSON value; the keys of an object are looked up from the front.\<close>

datatype json =
    JNull
  | JBool bool
  | JNumber rat
  | JString string
  | JArray "json list"
  | JObject "(string \<times> json) list"

text \<open>
  An issue of a failed parse: the path of the value it is about, and the message the
  schema gives for the failed check (\<open>None\<close> where the schema gives none and the
  library's own text is used). \<open>z.treeifyError\<close> nests the issues by their paths.
\<close>

datatype segment = Key string | Index nat

type_synonym issue = "segment list \<times> string option"

text \<open>The fields of an object schema are parsed one by one and their issues collected.\<close>

fun both :: "issue list + ('a \<Rightarrow> 'b) \<Rightarrow> issue list + 'a \<Rightarrow> issue list + 'b" where
  "both (Inr f) (Inr x) = Inr (f x)"
| "both (Inl e) (Inr x) = Inl e"
| "both (Inr f) (Inl e) = Inl e"
| "both (Inl e) (Inl e') = Inl (e @ e')"

text \<open>\<open>z.string().min(1, message)\<close> at key \<open>k\<close>.\<close>

definition required_text :: "string \<Rightarrow> string \<Rightarrow> json option \<Rightarrow> issue list + string" where
  "required_text k message v =
     (case v of
        Some (JString s) \<Rightarrow> if 1 \<le> length s then Inr s else Inl [([Key k], Some message)]
      | _ \<Rightarrow> Inl [([Key k], None)])"

text \<open>
  The \<open>price\<close> union: a positive number, or a string that \<open>Number\<close> converts to a
  positive number, which is then the price. \<open>Number\<close> on strings is a parameter.
\<close>

definition price_schema :: "(string \<Rightarrow> rat jsnum) \<Rightarrow> json option \<Rightarrow> issue list + rat jsnum" where
  "price_schema Number v =
     (case v of
        Some (JNumber r) \<Rightarrow>
          if 0 < r then Inr (Fin r)
          else Inl [([Key ''price''], Some ''Price must be greater than 0'')]
      | Some (JString val) \<Rightarrow>
          if Number val \<noteq> NaN \<and> js_lt (Fin 0) (Number val) then Inr (Number val)
          else Inl [([Key ''price''], Some ''Price must be a valid positive number'')]
      | _ \<Rightarrow> Inl [([Key ''price''], None)])"

text \<open>The regular expression \<open>/^(\+201|00201)[0-2,5]{1}[0-9]{8}$/\<close>.\<close>

definition strip_prefix :: "string \<Rightarrow> string \<Rightarrow> string option" where
  "strip_prefix p s = (if prefix p s then Some (drop (length p) s) else None)"

definition contact_regex :: "string \<Rightarrow> bool" where
  "contact_regex s =
     (case (case strip_prefix ''+201'' s of
              Some r \<Rightarrow> Some r
            | None \<Rightarrow> strip_prefix ''00201'' s) of
        None \<Rightarrow> False
      | Some r \<Rightarrow>
          (case r of
             [] \<Rightarrow> False
           | c # ds \<Rightarrow> c \<in> set ''012,5'' \<and> length ds = 8 \<and> list_all (\<lambda>d. d \<in> set ''0123456789'') ds))"

definition contact_schema :: "json option \<Rightarrow> issue list + string" where
  "contact_schema v =
     (case v of
        Some (JString s) \<Rightarrow>
          if contact_regex s then Inr s
          else Inl [([Key ''contactNumber''],
                     Some ''Contact number should be in the format +201101029668'')]
      | _ \<Rightarrow> Inl [([Key ''contactNumber''], None)])"

text \<open>
  The \<open>imageUrls\<close> array: every element a string that starts with \<open>/api/files/\<close>
  (the expression \<open>/^\/api\/files\/.*/\<close>), at least one element and at most eight.
\<close>

fun image_items :: "nat \<Rightarrow> json list \<Rightarrow> issue list \<times> string list" where
  "image_items i [] = ([], [])"
| "image_items i (x # xs) =
     (let (issues, urls) = image_items (Suc i) xs
      in case x of
           JString s \<Rightarrow>
             if prefix ''/api/files/'' s then (issues, s # urls)
             else (([Key ''imageUrls'', Index i], Some ''Invalid image URL format'') # issues, urls)
         | _ \<Rightarrow> (([Key ''imageUrls'', Index i], None) # issues, urls))"

definition images_schema :: "json option \<Rightarrow> issue list + string list" where
  "images_schema v =
     (case v of
        Some (JArray xs) \<Rightarrow>
          (let (item_issues, urls) = image_items 0 xs;
               size_issues =
                 (if length xs < 1
                  then [([Key ''imageUrls''], Some ''At least one image is required'')] else [])
                 @ (if 8 < length xs
                    then [([Key ''imageUrls''], Some ''Maximum of 8 images allowed'')] else [])
           in if item_issues @ size_issues = [] then Inr urls else Inl (item_issues @ size_issues))
      | _ \<Rightarrow> Inl [([Key ''imageUrls''], None)])"

definition make_input ::
  "string \<Rightarrow> string \<Rightarrow> string \<Rightarrow> string \<Rightarrow> rat jsnum \<Rightarrow> string \<Rightarrow> string list \<Rightarrow> ApartmentInput" where
  "make_input n u p d pr c is =
     \<lparr>name = n, unitNumber = u, project = p, description = d, price = pr,
      contactNumber = c, imageUrls = is\<rparr>"

text \<open>\<open>ApartmentSchema.safeParse(body)\<close>: the issues, or the parsed data.\<close>

definition ApartmentSchema :: "(string \<Rightarrow> rat jsnum) \<Rightarrow> json \<Rightarrow> issue list + ApartmentInput" where
  "ApartmentSchema Number body =
     (case body of
        JObject members \<Rightarrow>
          both (both (both (both (both (both (both (Inr make_input)
            (required_text ''name'' ''Name is required'' (map_of members ''name'')))
            (required_text ''unitNumber'' ''Unit number is required'' (map_of members ''unitNumber'')))
            (required_text ''project'' ''Project name is required'' (map_of members ''project'')))
            (required_text ''description'' ''Description is required'' (map_of members ''description'')))
            (price_schema Number (map_of members ''price'')))
            (contact_schema (map_of members ''contactNumber'')))
            (images_schema (map_of members ''imageUrls''))
      | _ \<Rightarrow> Inl [([], None)])"

datatype creation_response =
    Created201 Apartment
  | Invalid400 string "issue list"
  | Failed500 string

text \<open>
  The handler. \<open>body\<close> is \<open>None\<close> when \<open>request.json()\<close> throws. The database changes
  only through \<open>create\<close>, which is reached only with the parsed data.
\<close>

definition POST ::
  "(string \<Rightarrow> rat jsnum) \<Rightarrow> 'db prisma \<Rightarrow> json option \<Rightarrow> 'db \<Rightarrow> creation_response \<times> 'db" where
  "POST Number client body db =
     (case body of
        None \<Rightarrow> (Failed500 ''Internal server error'', db)
      | Some b \<Rightarrow>
          (case ApartmentSchema Number b of
             Inl errors \<Rightarrow> (Invalid400 ''Validation failed'' errors, db)
           | Inr data \<Rightarrow>
               (case create client data db of
                  None \<Rightarrow> (Failed500 ''Internal server error'', db)
                | Some (newApartment, db') \<Rightarrow> (Created201 newApartment, db'))))"

fun run_posts ::
  "(string \<Rightarrow> rat jsnum) \<Rightarrow> 'db prisma \<Rightarrow> json option list \<Rightarrow> 'db \<Rightarrow> 'db" where
  "run_posts Number client [] db = db"
| "run_posts Number client (b # bs) db = run_posts Number client bs (snd (POST Number client b db))"

text \<open>
  The invariants of a stored record, as the data model states them: the four text
  fields are not empty, the price is greater than zero, the contact number is
  \<open>+201\<close> or \<open>00201\<close>, then one of \<open>0 1 2 , 5\<close>, then eight digits, and there are
  between one and eight image URLs.
\<close>

definition regional_number :: "string \<Rightarrow> bool" where
  "regional_number s =
     (\<exists>pre c ds. s = pre @ c # ds \<and> (pre = ''+201'' \<or> pre = ''00201'')
        \<and> c \<in> {CHR ''0'', CHR ''1'', CHR ''2'', CHR '','', CHR ''5''}
        \<and> length ds = 8 \<and> set ds \<subseteq> set ''0123456789'')"

definition record_invariants :: "'a ApartmentInput_scheme \<Rightarrow> bool" where
  "record_invariants a =
     (name a \<noteq> [] \<and> unitNumber a \<noteq> [] \<and> project a \<noteq> [] \<and> description a \<noteq> []
      \<and> js_lt (Fin 0) (price a)
      \<and> regional_number (contactNumber a)
      \<and> 1 \<le> length (imageUrls a) \<and> length (imageUrls a) \<le> 8)"

text \<open>
  The example request of the endpoint's API documentation, the same request with the
  price \<open>-5\<close>, and the data of the example after validation.
\<close>

definition example_body :: json where
  "example_body =
     JObject [(''name'', JString ''Downtown Apartment''),
              (''unitNumber'', JString ''A203''),
              (''project'', JString ''Skyline Towers''),
              (''price'', JNumber 250000),
              (''description'', JString ''Spacious apartment with a view.''),
              (''contactNumber'', JString ''+201101029668''),
              (''imageUrls'', JArray [JString ''/api/files/image1.jpg''])]"

definition negative_price_body :: json where
  "negative_price_body =
     JObject [(''name'', JString ''Downtown Apartment''),
              (''unitNumber'', JString ''A203''),
              (''project'', JString ''Skyline Towers''),
              (''price'', JNumber (- 5)),
              (''description'', JString ''Spacious apartment with a view.''),
              (''contactNumber'', JString ''+201101029668''),
              (''imageUrls'', JArray [JString ''/api/files/image1.jpg''])]"

definition example_input :: ApartmentInput where
  "example_input =
     make_input ''Downtown Apartment'' ''A203'' ''Skyline Towers''
       ''Spacious apartment with a view.'' (Fin 250000) ''+201101029668''
       [''/api/files/image1.jpg'']"

section \<open>Properties of the fetch coordinator\<close>


lemma fetchApartments_fields:
  "apartments (fetchApartments page q s) = apartments s"
  "pagination (fetchApartments page q s) = pagination s"
  "currentPage (fetchApartments page q s) = currentPage s"
  "search (fetchApartments page q s) = search s"
  "limit (fetchApartments page q s) = limit s"
  "isLoading (fetchApartments page q s) = True"
  "error (fetchApartments page q s) = None"
  "abortRef (fetchApartments page q s) = Some (next_controller s)"
  "next_controller (fetchApartments page q s) = Suc (next_controller s)"
  "url (fetchApartments page q s) = buildParams (limit s) page q"
  "in_flight (fetchApartments page q s) =
     (in_flight s)(next_controller s \<mapsto> (page, buildParams (limit s) page q))"
  "signals (fetchApartments page q s) =
     (\<lambda>c. if c = next_controller s then False
          else if abortRef s = Some c then True else signals s c)"
  by (auto simp: fetchApartments_def Let_def split: option.splits)

lemma settle_aborted:
  "signals s c \<Longrightarrow> committed (settle c out s) = committed s"
  by (simp add: settle_def resume_def committed_def split: option.splits)

lemma settle_frame:
  "abortRef (settle c out s) = abortRef s"
  "signals (settle c out s) = signals s"
  "next_controller (settle c out s) = next_controller s"
  by (auto simp: settle_def resume_def Let_def split: option.splits outcome.splits thrown.splits)

lemma fetch_latest: "latest_or_superseded (next_controller s) (fetchApartments page q s)"
  by (simp add: latest_or_superseded_def fetchApartments_fields)

lemma fetch_supersedes:
  "latest_or_superseded c s \<Longrightarrow> superseded c (fetchApartments page q s)"
  by (auto simp: latest_or_superseded_def superseded_def fetchApartments_fields)

lemma fetch_keeps_superseded:
  "superseded c s \<Longrightarrow> superseded c (fetchApartments page q s)"
  by (auto simp: superseded_def fetchApartments_fields)

lemma fetch_keeps_latest:
  "latest_or_superseded c s \<Longrightarrow> latest_or_superseded c (fetchApartments page q s)"
  by (auto simp: latest_or_superseded_def fetchApartments_fields)

lemma superseded_update [simp]:
  "superseded c (s\<lparr>currentPage := p\<rparr>) = superseded c s"
  "superseded c (s\<lparr>search := q\<rparr>) = superseded c s"
  "latest_or_superseded c (s\<lparr>currentPage := p\<rparr>) = latest_or_superseded c s"
  "latest_or_superseded c (s\<lparr>search := q\<rparr>) = latest_or_superseded c s"
  by (simp_all add: superseded_def latest_or_superseded_def)

lemma step_keeps_superseded: "superseded c s \<Longrightarrow> superseded c (step s e)"
proof (cases e)
  case (Settle c' out)
  then show "superseded c s \<Longrightarrow> superseded c (step s e)"
    by (simp add: superseded_def settle_frame)
qed (auto simp: goToPage_def submitSearch_def clearSearch_def intro: fetch_keeps_superseded)

lemma step_keeps_latest: "latest_or_superseded c s \<Longrightarrow> latest_or_superseded c (step s e)"
proof (cases e)
  case (Settle c' out)
  then show "latest_or_superseded c s \<Longrightarrow> latest_or_superseded c (step s e)"
    by (simp add: latest_or_superseded_def settle_frame)
qed (auto simp: goToPage_def submitSearch_def clearSearch_def intro: fetch_keeps_latest)

lemma run_keeps_superseded: "superseded c s \<Longrightarrow> superseded c (run s es)"
  unfolding run_def by (induction es arbitrary: s) (simp_all add: step_keeps_superseded)

lemma run_keeps_latest: "latest_or_superseded c s \<Longrightarrow> latest_or_superseded c (run s es)"
  unfolding run_def by (induction es arbitrary: s) (simp_all add: step_keeps_latest)

lemma stale_after_newer_fetch:
  "superseded (next_controller s)
     (run (fetchApartments pB qB (run (fetchApartments pA qA s) before)) after)"
  by (intro run_keeps_superseded fetch_supersedes run_keeps_latest fetch_latest)

lemma settle_latest:
  "committed (settle (next_controller s) out (fetchApartments p q s)) =
   committed (resume p out (fetchApartments p q s))"
  by (simp add: settle_def fetchApartments_fields resume_def committed_def
      split: outcome.splits thrown.splits)

text \<open>
  Claim C1. Fetch A is issued, then fetch B before A has settled; whatever else happens
  before and after B is issued (\<open>before\<close>, \<open>after\<close>), settling A leaves
  \<open>apartments\<close>, \<open>pagination\<close>, \<open>currentPage\<close> and \<open>error\<close> as they are. When
  B follows A at once, \<open>error\<close> is \<open>None\<close> after B is issued and after A settles,
  and in both orders of settling the four fields are those of B's outcome alone.
\<close>

theorem cancelled_request_never_commits:
  "(let cA = next_controller s;
        s1 = run (fetchApartments pA qA s) before;
        s2 = run (fetchApartments pB qB s1) after
    in committed (settle cA outA s2) = committed s2)
   \<and> (let cA = next_controller s;
           sA = fetchApartments pA qA s;
           cB = next_controller sA;
           sB = fetchApartments pB qB sA
       in error sB = None
          \<and> committed (settle cA outA sB) = committed sB
          \<and> error (settle cA outA sB) = None
          \<and> committed (settle cB outB (settle cA outA sB)) = committed (resume pB outB sB)
          \<and> committed (settle cA outA (settle cB outB sB)) = committed (resume pB outB sB))"
proof -
  let ?sA = "fetchApartments pA qA s"
  let ?sB = "fetchApartments pB qB ?sA"
  let ?cA = "next_controller s"
  let ?cB = "next_controller ?sA"
  have general: "committed (settle ?cA outA (run (fetchApartments pB qB (run ?sA before)) after))
      = committed (run (fetchApartments pB qB (run ?sA before)) after)" for before after
    using stale_after_newer_fetch [of s pB qB pA qA before after]
    by (simp add: superseded_def settle_aborted)
  have sigA: "signals ?sB ?cA"
    by (simp add: fetchApartments_fields)
  have dropA: "committed (settle ?cA outA ?sB) = committed ?sB"
    using sigA by (rule settle_aborted)
  have errB: "error ?sB = None"
    by (simp add: fetchApartments_fields)
  have errA: "error (settle ?cA outA ?sB) = None"
    using dropA errB by (simp add: committed_def)
  have lateB: "committed (settle ?cB outB ?sB) = committed (resume pB outB ?sB)"
    by (rule settle_latest)
  have AB: "committed (settle ?cB outB (settle ?cA outA ?sB)) = committed (resume pB outB ?sB)"
    by (simp add: settle_def fetchApartments_fields resume_def committed_def
        split: outcome.splits thrown.splits option.splits)
  have BA: "committed (settle ?cA outA (settle ?cB outB ?sB)) = committed (resume pB outB ?sB)"
  proof -
    have "signals (settle ?cB outB ?sB) ?cA"
      using sigA by (simp add: settle_frame)
    then have "committed (settle ?cA outA (settle ?cB outB ?sB)) = committed (settle ?cB outB ?sB)"
      by (rule settle_aborted)
    with lateB show ?thesis by simp
  qed
  show ?thesis
    using general [of before after] dropA errB errA AB BA by (simp add: Let_def)
qed


theorem cancelled_request_never_commits_witness:
  "committed
     (settle 0
        (Json \<lparr>data_apartments = Some [],
               data_pagination = Some \<lparr>p_currentPage = Some 7, p_totalPages = Some 9,
                 p_totalCount = Some 70, p_hasNextPage = True, p_hasPrevPage = True,
                 p_limit = Some 8\<rparr>\<rparr>)
        (fetchApartments (Fin 2) ''sky'' (fetchApartments (Fin 1) [] (mounted (Fin 1) [] (Fin 8)))))
   = ([], None, Fin 1, None)"
  using cancelled_request_never_commits
    [where s = "mounted (Fin 1) [] (Fin 8)" and pA = "Fin 1" and qA = "[]" and before = "[]"
       and pB = "Fin 2" and qB = "''sky''" and after = "[]"
       and outA = "Json \<lparr>data_apartments = Some [],
               data_pagination = Some \<lparr>p_currentPage = Some 7, p_totalPages = Some 9,
                 p_totalCount = Some 70, p_hasNextPage = True, p_hasPrevPage = True,
                 p_limit = Some 8\<rparr>\<rparr>"
       and outB = "Rejected OtherValue"]
  by (simp add: Let_def mounted_def committed_def fetchApartments_fields)

text \<open>
  Claim C10. After fetch B is issued while fetch A is in flight, \<open>isLoading\<close> is
  true. When the aborted A settles, its \<open>finally\<close> clause sets \<open>isLoading\<close> to false
  although B is still in flight; the four committed fields are untouched.
\<close>

theorem aborted_fetch_clears_isLoading:
  "let cA = next_controller s;
       sA = fetchApartments pA qA s;
       cB = next_controller sA;
       sB = fetchApartments pB qB sA;
       s' = settle cA outA sB
   in isLoading sB
      \<and> in_flight sB cA = Some (pA, buildParams (limit s) pA qA)
      \<and> committed s' = committed sB
      \<and> \<not> isLoading s'
      \<and> in_flight s' cB = Some (pB, buildParams (limit s) pB qB)"
  by (simp add: Let_def settle_def resume_def committed_def fetchApartments_fields)

theorem aborted_fetch_clears_isLoading_witness:
  "\<not> isLoading (settle 0 (Rejected AbortError)
        (fetchApartments (Fin 2) [] (fetchApartments (Fin 1) [] (mounted (Fin 1) [] (Fin 8)))))
   \<and> in_flight (settle 0 (Rejected AbortError)
        (fetchApartments (Fin 2) [] (fetchApartments (Fin 1) [] (mounted (Fin 1) [] (Fin 8))))) 1
      = Some (Fin 2, [(''page'', ''2''), (''limit'', ''8'')])"
  using aborted_fetch_clears_isLoading
    [where s = "mounted (Fin 1) [] (Fin 8)" and pA = "Fin 1" and qA = "[]"
       and pB = "Fin 2" and qB = "[]" and outA = "Rejected AbortError"]
  by (simp add: Let_def mounted_def fetchApartments_fields buildParams_def)



text \<open>
  Claim C4. \<open>goToPage(page)\<close> returns the state as it is, with no request issued,
  when \<open>page < 1\<close> and when the pagination is known and \<open>page > totalPages\<close>;
  otherwise it sets \<open>currentPage\<close> and issues the fetch of \<open>page\<close> with the current
  search text.
\<close>

theorem goToPage_bounds:
  "(js_lt page (Fin 1) \<longrightarrow> goToPage page s = s)
   \<and> (\<forall>p. pagination s = Some p \<and> js_lt (number_of_json (p_totalPages p)) page
          \<longrightarrow> goToPage page s = s)
   \<and> (\<not> js_lt page (Fin 1)
        \<and> (\<forall>p. pagination s = Some p \<longrightarrow> \<not> js_lt (number_of_json (p_totalPages p)) page)
      \<longrightarrow> goToPage page s = fetchApartments page (search s) (s\<lparr>currentPage := page\<rparr>)
          \<and> currentPage (goToPage page s) = page
          \<and> in_flight (goToPage page s) (next_controller s)
              = Some (page, buildParams (limit s) page (search s))
          \<and> url (goToPage page s) = buildParams (limit s) page (search s))"
  by (auto simp: goToPage_def fetchApartments_fields split: option.splits)

theorem goToPage_bounds_witness:
  "goToPage (Fin 0) (mounted (Fin 1) [] (Fin 8)) = mounted (Fin 1) [] (Fin 8)
   \<and> goToPage (Fin 4)
        (mounted (Fin 1) [] (Fin 8)
           \<lparr>pagination := Some \<lparr>p_currentPage = Some 1, p_totalPages = Some 3,
              p_totalCount = Some 17, p_hasNextPage = True, p_hasPrevPage = False,
              p_limit = Some 8\<rparr>\<rparr>)
      = mounted (Fin 1) [] (Fin 8)
           \<lparr>pagination := Some \<lparr>p_currentPage = Some 1, p_totalPages = Some 3,
              p_totalCount = Some 17, p_hasNextPage = True, p_hasPrevPage = False,
              p_limit = Some 8\<rparr>\<rparr>
   \<and> in_flight (goToPage (Fin 2) (mounted (Fin 1) [] (Fin 8))) 0
      = Some (Fin 2, [(''page'', ''2''), (''limit'', ''8'')])"
  using goToPage_bounds [of "Fin 0" "mounted (Fin 1) [] (Fin 8)"]
    goToPage_bounds [of "Fin 4" "mounted (Fin 1) [] (Fin 8)
           \<lparr>pagination := Some \<lparr>p_currentPage = Some 1, p_totalPages = Some 3,
              p_totalCount = Some 17, p_hasNextPage = True, p_hasPrevPage = False,
              p_limit = Some 8\<rparr>\<rparr>"]
    goToPage_bounds [of "Fin 2" "mounted (Fin 1) [] (Fin 8)"]
  by (simp add: mounted_def buildParams_def fetchApartments_fields)





section \<open>Properties of the listing endpoint\<close>












section \<open>Properties of the file endpoint\<close>

lemma includes_str_iff: "includes_str s sub \<longleftrightarrow> (\<exists>a b. s = a @ sub @ b)"
proof (induction s)
  case Nil
  show ?case by auto
next
  case (Cons c cs)
  have "(\<exists>a b. c # cs = a @ sub @ b) \<longleftrightarrow> prefix sub (c # cs) \<or> (\<exists>a b. cs = a @ sub @ b)"
  proof
    assume "\<exists>a b. c # cs = a @ sub @ b"
    then obtain a b where ab: "c # cs = a @ sub @ b" by blast
    show "prefix sub (c # cs) \<or> (\<exists>a b. cs = a @ sub @ b)"
    proof (cases a)
      case Nil
      with ab show ?thesis by (auto simp: prefix_def)
    next
      case (Cons x a')
      with ab have "cs = a' @ sub @ b" by simp
      then show ?thesis by blast
    qed
  next
    assume "prefix sub (c # cs) \<or> (\<exists>a b. cs = a @ sub @ b)"
    then show "\<exists>a b. c # cs = a @ sub @ b"
    proof
      assume "prefix sub (c # cs)"
      then obtain b where "c # cs = sub @ b" by (auto simp: prefix_def)
      then have "c # cs = [] @ sub @ b" by simp
      then show ?thesis by blast
    next
      assume "\<exists>a b. cs = a @ sub @ b"
      then obtain a b where "cs = a @ sub @ b" by blast
      then have "c # cs = (c # a) @ sub @ b" by simp
      then show ?thesis by blast
    qed
  qed
  with Cons.IH show ?case by simp
qed

text \<open>
  Claim C8. A file name that contains \<open>..\<close> or \<open>/\<close> is answered with \<open>400\<close> and no
  call of the file system; when the handler does call the file system, the name
  contains neither, and the calls are on the joined path only.
\<close>
theorem traversal_rejected_before_filesystem:
  "((\<exists>a b. filename = a @ ''..'' @ b) \<or> (\<exists>a b. filename = a @ ''/'' @ b)
     \<longrightarrow> GET_file cwd fs filename =
         (\<lparr>status = 400, headers = [], payload = JsonError ''Invalid filename''\<rparr>, []))
   \<and> (snd (GET_file cwd fs filename) \<noteq> []
        \<longrightarrow> \<not> (\<exists>a b. filename = a @ ''..'' @ b) \<and> \<not> (\<exists>a b. filename = a @ ''/'' @ b)
            \<and> set (snd (GET_file cwd fs filename))
                \<subseteq> {ExistsSync (path_join (UPLOAD_DIR cwd) filename),
                    ReadFileSync (path_join (UPLOAD_DIR cwd) filename)})"
proof -
  define rejected where
    "rejected = (includes_str filename ''..'' \<or> includes_str filename ''/'')"
  have rejected_iff:
    "rejected \<longleftrightarrow> (\<exists>a b. filename = a @ ''..'' @ b) \<or> (\<exists>a b. filename = a @ ''/'' @ b)"
    unfolding rejected_def includes_str_iff ..
  have refused: "GET_file cwd fs filename =
         (\<lparr>status = 400, headers = [], payload = JsonError ''Invalid filename''\<rparr>, [])"
    if rejected
    using that unfolding rejected_def GET_file_def by simp
  have calls: "set (snd (GET_file cwd fs filename))
                \<subseteq> {ExistsSync (path_join (UPLOAD_DIR cwd) filename),
                    ReadFileSync (path_join (UPLOAD_DIR cwd) filename)}"
    by (auto simp: GET_file_def Let_def split: option.splits)
  have "\<not> rejected" if "snd (GET_file cwd fs filename) \<noteq> []"
    using that refused by auto
  with refused calls show ?thesis
    unfolding rejected_iff by blast
qed

theorem traversal_rejected_before_filesystem_witness:
  "GET_file ''/app'' [''/app/etc/passwd'' \<mapsto> File ''root:x:0:0''] ''../../etc/passwd''
     = (\<lparr>status = 400, headers = [], payload = JsonError ''Invalid filename''\<rparr>, [])
   \<and> snd (GET_file ''/app'' [''/app/files/uploads/a.png'' \<mapsto> File ''PNG''] ''a.png'')
     = [ExistsSync ''/app/files/uploads/a.png'', ReadFileSync ''/app/files/uploads/a.png'']"
proof -
  have "''../../etc/passwd'' = [] @ ''..'' @ ''/../etc/passwd''"
    by simp
  then have "(\<exists>a b. ''../../etc/passwd'' = a @ ''..'' @ b) \<or> (\<exists>a b. ''../../etc/passwd'' = a @ ''/'' @ b)"
    by blast
  then have first: "GET_file ''/app'' [''/app/etc/passwd'' \<mapsto> File ''root:x:0:0''] ''../../etc/passwd''
     = (\<lparr>status = 400, headers = [], payload = JsonError ''Invalid filename''\<rparr>, [])"
    using traversal_rejected_before_filesystem
      [of "''../../etc/passwd''" "''/app''" "[''/app/etc/passwd'' \<mapsto> File ''root:x:0:0'']"]
    by blast
  have second: "snd (GET_file ''/app'' [''/app/files/uploads/a.png'' \<mapsto> File ''PNG''] ''a.png'')
     = [ExistsSync ''/app/files/uploads/a.png'', ReadFileSync ''/app/files/uploads/a.png'']"
    by (simp add: GET_file_def UPLOAD_DIR_def path_join_def path_normalize_def Let_def
        existsSync_def readFileSync_def)
  from first second show ?thesis by blast
qed

text \<open>
  Claim C9. \<open>HEAD\<close> rejects no file name: it makes one \<open>existsSync\<close> call on the
  joined path and answers \<open>200\<close> when the path exists, \<open>404\<close> otherwise. For
  \<open>../../etc/passwd\<close> under \<open>/app\<close> the path probed is \<open>/app/etc/passwd\<close>, outside
  the upload directory, where \<open>GET\<close> answers \<open>400\<close>.
\<close>
theorem head_probes_any_path:
  "HEAD_file cwd fs filename =
     (\<lparr>status = (if fs (path_join (UPLOAD_DIR cwd) filename) \<noteq> None then 200 else 404),
       headers = [], payload = NoBody\<rparr>,
      [ExistsSync (path_join (UPLOAD_DIR cwd) filename)])
   \<and> path_join (UPLOAD_DIR ''/app'') ''../../etc/passwd'' = ''/app/etc/passwd''
   \<and> \<not> inside (UPLOAD_DIR ''/app'') ''/app/etc/passwd''
   \<and> HEAD_file ''/app'' [''/app/etc/passwd'' \<mapsto> File ''root:x:0:0''] ''../../etc/passwd''
      = (\<lparr>status = 200, headers = [], payload = NoBody\<rparr>, [ExistsSync ''/app/etc/passwd''])
   \<and> HEAD_file ''/app'' Map.empty ''../../etc/passwd''
      = (\<lparr>status = 404, headers = [], payload = NoBody\<rparr>, [ExistsSync ''/app/etc/passwd''])
   \<and> status (fst (GET_file ''/app'' [''/app/etc/passwd'' \<mapsto> File ''root:x:0:0''] ''../../etc/passwd'')) = 400"
proof -
  have j: "path_join (UPLOAD_DIR ''/app'') ''../../etc/passwd'' = ''/app/etc/passwd''"
    by (simp add: UPLOAD_DIR_def path_join_def path_normalize_def Let_def)
  have u: "UPLOAD_DIR ''/app'' = ''/app/files/uploads''"
    by (simp add: UPLOAD_DIR_def path_normalize_def Let_def)
  have general: "HEAD_file cwd fs filename =
     (\<lparr>status = (if fs (path_join (UPLOAD_DIR cwd) filename) \<noteq> None then 200 else 404),
       headers = [], payload = NoBody\<rparr>,
      [ExistsSync (path_join (UPLOAD_DIR cwd) filename)])" for cwd fs filename
    by (simp add: HEAD_file_def Let_def existsSync_def)
  have out: "\<not> inside (UPLOAD_DIR ''/app'') ''/app/etc/passwd''"
    by (simp add: u inside_def)
  have g: "status (fst (GET_file ''/app'' [''/app/etc/passwd'' \<mapsto> File ''root:x:0:0''] ''../../etc/passwd'')) = 400"
    by (simp add: GET_file_def)
  show ?thesis
    using j out g by (simp add: general)
qed

theorem head_probes_any_path_witness:
  "fst (HEAD_file ''/srv/listing'' [''/srv/listing/secret.key'' \<mapsto> File ''k''] ''../../secret.key'')
     = \<lparr>status = 200, headers = [], payload = NoBody\<rparr>
   \<and> fst (HEAD_file ''/srv/listing'' [''/srv/listing/secret.key'' \<mapsto> File ''k''] ''photo.jpg'')
     = \<lparr>status = 404, headers = [], payload = NoBody\<rparr>"
  using head_probes_any_path [of "''/srv/listing''" "[''/srv/listing/secret.key'' \<mapsto> File ''k'']" "''../../secret.key''"]
    head_probes_any_path [of "''/srv/listing''" "[''/srv/listing/secret.key'' \<mapsto> File ''k'']" "''photo.jpg''"]
  by (simp add: UPLOAD_DIR_def path_join_def path_normalize_def Let_def)

section \<open>Properties of the creation endpoint\<close>

lemma both_Inr_iff:
  "both f x = Inr y \<longleftrightarrow> (\<exists>g v. f = Inr g \<and> x = Inr v \<and> y = g v)"
  by (cases f; cases x) auto

lemma both_issues:
  assumes "both f x = Inl e"
    and "\<And>e'. f = Inl e' \<Longrightarrow> e' \<noteq> []" and "\<And>e'. x = Inl e' \<Longrightarrow> e' \<noteq> []"
  shows "e \<noteq> []"
  using assms by (cases f; cases x) auto

lemma required_text_Inr: "required_text k m v = Inr s \<Longrightarrow> s \<noteq> []"
  by (auto simp: required_text_def split: option.splits json.splits if_splits)

lemma required_text_Inl: "required_text k m v = Inl e \<Longrightarrow> e \<noteq> []"
  by (auto simp: required_text_def split: option.splits json.splits if_splits)

lemma price_schema_Inr: "price_schema Number v = Inr p \<Longrightarrow> js_lt (Fin 0) p"
  by (auto simp: price_schema_def split: option.splits json.splits if_splits)

lemma price_schema_Inl: "price_schema Number v = Inl e \<Longrightarrow> e \<noteq> []"
  by (auto simp: price_schema_def split: option.splits json.splits if_splits)

lemma strip_prefix_Some: "strip_prefix p s = Some r \<Longrightarrow> s = p @ r"
  by (auto simp: strip_prefix_def prefix_def split: if_splits)

lemma contact_regex_regional: "contact_regex s \<Longrightarrow> regional_number s"
proof -
  assume ok: "contact_regex s"
  then obtain pre r where pre: "pre = ''+201'' \<or> pre = ''00201''" and s: "s = pre @ r"
    and r: "case r of [] \<Rightarrow> False
            | c # ds \<Rightarrow> c \<in> set ''012,5'' \<and> length ds = 8 \<and> list_all (\<lambda>d. d \<in> set ''0123456789'') ds"
    unfolding contact_regex_def
    by (auto split: option.splits dest: strip_prefix_Some)
  from r obtain c ds where cd: "r = c # ds" "c \<in> set ''012,5''" "length ds = 8"
    "list_all (\<lambda>d. d \<in> set ''0123456789'') ds"
    by (cases r) auto
  from cd(2) have c: "c \<in> {CHR ''0'', CHR ''1'', CHR ''2'', CHR '','', CHR ''5''}"
    by auto
  from cd(4) have ds: "set ds \<subseteq> set ''0123456789''"
    by (auto simp: list_all_iff)
  show ?thesis
    unfolding regional_number_def using pre s cd(1,3) c ds by blast
qed

lemma contact_schema_Inr: "contact_schema v = Inr s \<Longrightarrow> regional_number s"
  by (auto simp: contact_schema_def contact_regex_regional split: option.splits json.splits if_splits)

lemma contact_schema_Inl: "contact_schema v = Inl e \<Longrightarrow> e \<noteq> []"
  by (auto simp: contact_schema_def split: option.splits json.splits if_splits)

lemma image_items_length:
  "image_items i xs = ([], urls) \<Longrightarrow> length urls = length xs"
proof (induction xs arbitrary: i urls)
  case Nil
  then show ?case by simp
next
  case (Cons x xs)
  obtain issues rest where r: "image_items (Suc i) xs = (issues, rest)"
    by (cases "image_items (Suc i) xs")
  with Cons.prems have "issues = [] \<and> (\<exists>s. urls = s # rest)"
    by (auto split: json.splits if_splits)
  with r Cons.IH [of "Suc i" rest] show ?case by auto
qed

lemma images_schema_Inr:
  "images_schema v = Inr urls \<Longrightarrow> 1 \<le> length urls \<and> length urls \<le> 8"
proof -
  assume ok: "images_schema v = Inr urls"
  then obtain xs where v: "v = Some (JArray xs)"
    by (auto simp: images_schema_def split: option.splits json.splits)
  obtain issues us where it: "image_items 0 xs = (issues, us)"
    by (cases "image_items 0 xs")
  from ok v it have "issues = []" "us = urls" "\<not> length xs < 1" "\<not> 8 < length xs"
    by (auto simp: images_schema_def Let_def split: if_splits)
  with it image_items_length [of 0 xs urls] show ?thesis by (cases xs) auto
qed

lemma images_schema_Inl: "images_schema v = Inl e \<Longrightarrow> e \<noteq> []"
  by (auto simp: images_schema_def Let_def split: option.splits json.splits if_splits prod.splits)

lemma ApartmentSchema_valid:
  assumes "ApartmentSchema Number b = Inr d"
  shows "record_invariants d"
proof -
  from assms obtain members where b: "b = JObject members"
    by (cases b) (auto simp: ApartmentSchema_def)
  from assms b obtain n u p ds pr c im where
    parts: "required_text ''name'' ''Name is required'' (map_of members ''name'') = Inr n"
      "required_text ''unitNumber'' ''Unit number is required'' (map_of members ''unitNumber'') = Inr u"
      "required_text ''project'' ''Project name is required'' (map_of members ''project'') = Inr p"
      "required_text ''description'' ''Description is required'' (map_of members ''description'') = Inr ds"
      "price_schema Number (map_of members ''price'') = Inr pr"
      "contact_schema (map_of members ''contactNumber'') = Inr c"
      "images_schema (map_of members ''imageUrls'') = Inr im"
    and d: "d = make_input n u p ds pr c im"
    unfolding ApartmentSchema_def by (auto simp: both_Inr_iff)
  show ?thesis
    unfolding d record_invariants_def make_input_def
    using required_text_Inr [OF parts(1)] required_text_Inr [OF parts(2)]
      required_text_Inr [OF parts(3)] required_text_Inr [OF parts(4)]
      price_schema_Inr [OF parts(5)] contact_schema_Inr [OF parts(6)]
      images_schema_Inr [OF parts(7)]
    by simp
qed

lemma ApartmentSchema_issues:
  assumes "ApartmentSchema Number b = Inl e"
  shows "e \<noteq> []"
proof (cases b)
  case (JObject members)
  from assms show ?thesis
    unfolding ApartmentSchema_def JObject json.case
    by (elim both_issues)
       (auto dest: required_text_Inl price_schema_Inl contact_schema_Inl images_schema_Inl
             elim!: both_issues)
qed (use assms in \<open>auto simp: ApartmentSchema_def\<close>)

lemma POST_invalid:
  "ApartmentSchema Number b = Inl errs \<Longrightarrow>
   POST Number client (Some b) db = (Invalid400 ''Validation failed'' errs, db)"
  by (simp add: POST_def)

lemma POST_created:
  assumes "POST Number client body db = (Created201 a, db')"
  shows "\<exists>b d. body = Some b \<and> ApartmentSchema Number b = Inr d \<and> record_invariants d
           \<and> create client d db = Some (a, db')"
  using assms ApartmentSchema_valid [of Number]
  by (auto simp: POST_def split: option.splits sum.splits prod.splits)

lemma POST_changes_only_on_201:
  "snd (POST Number client body db) \<noteq> db \<Longrightarrow> \<exists>a. fst (POST Number client body db) = Created201 a"
  by (auto simp: POST_def split: option.splits sum.splits prod.splits)

lemma stored_record_invariants:
  "record_invariants d \<Longrightarrow> record_invariants (stored_record d i t)"
  by (simp add: record_invariants_def stored_record_def)

lemma POST_store_rows:
  assumes "list_all record_invariants (rows db)"
  shows "list_all record_invariants (rows (snd (POST Number store body db)))"
proof (cases "POST Number store body db")
  case (Pair resp db')
  show ?thesis
  proof (cases resp)
    case (Created201 a)
    with Pair POST_created [of Number store body db a db']
    obtain d where d: "record_invariants d" "create store d db = Some (a, db')"
      by blast
    from d(2) have "rows db' = rows db @ [stored_record d (next_id db) (clock db)]"
      by (auto simp: store_def store_insert_def Let_def)
    with assms d(1) Pair show ?thesis
      by (simp add: stored_record_invariants)
  next
    case (Invalid400 m errs)
    with Pair POST_changes_only_on_201 [of Number store body db] assms show ?thesis
      by (cases "db' = db") auto
  next
    case (Failed500 m)
    with Pair POST_changes_only_on_201 [of Number store body db] assms show ?thesis
      by (cases "db' = db") auto
  qed
qed

lemma run_posts_rows:
  "list_all record_invariants (rows db) \<Longrightarrow>
   list_all record_invariants (rows (run_posts Number store bodies db))"
  by (induction bodies arbitrary: db) (simp_all add: POST_store_rows)

lemma negative_price_issues:
  "ApartmentSchema Number negative_price_body
     = Inl [([Key ''price''], Some ''Price must be greater than 0'')]"
  by (simp add: ApartmentSchema_def negative_price_body_def required_text_def price_schema_def
      contact_schema_def contact_regex_def strip_prefix_def images_schema_def)

lemma example_body_parsed: "ApartmentSchema Number example_body = Inr example_input"
  by (simp add: ApartmentSchema_def example_body_def example_input_def required_text_def
      price_schema_def contact_schema_def contact_regex_def strip_prefix_def images_schema_def)

text \<open>
  Claim C7. A body that fails validation is answered with \<open>400\<close>, the message
  \<open>Validation failed\<close> and a non-empty list of issues, each with the path of its
  field, and the database is left as it was. A record is created only from a body
  that passed validation, and the parsed data satisfies the invariants of the data
  model; the database changes only when the answer is \<open>201\<close>. So every record the
  endpoint adds to the record store satisfies the invariants. The price \<open>-5\<close> is
  refused with the issue of the \<open>price\<close> field, and nothing is inserted.
\<close>
theorem stored_records_are_valid:
  "(\<forall>b errs. ApartmentSchema Number b = Inl errs
       \<longrightarrow> errs \<noteq> [] \<and> POST Number client (Some b) db = (Invalid400 ''Validation failed'' errs, db))
   \<and> (\<forall>body a db'. POST Number client body db = (Created201 a, db')
         \<longrightarrow> (\<exists>b d. body = Some b \<and> ApartmentSchema Number b = Inr d \<and> record_invariants d
                 \<and> create client d db = Some (a, db')))
   \<and> (\<forall>body. snd (POST Number client body db) \<noteq> db
         \<longrightarrow> (\<exists>a. fst (POST Number client body db) = Created201 a))
   \<and> (list_all record_invariants (rows start)
        \<longrightarrow> list_all record_invariants (rows (run_posts Number store bodies start)))
   \<and> POST Number client (Some negative_price_body) db
        = (Invalid400 ''Validation failed'' [([Key ''price''], Some ''Price must be greater than 0'')], db)"
proof -
  have invalid: "\<forall>b errs. ApartmentSchema Number b = Inl errs
       \<longrightarrow> errs \<noteq> [] \<and> POST Number client (Some b) db = (Invalid400 ''Validation failed'' errs, db)"
    using ApartmentSchema_issues [of Number] POST_invalid [of Number _ _ client db] by blast
  have created: "\<forall>body a db'. POST Number client body db = (Created201 a, db')
         \<longrightarrow> (\<exists>b d. body = Some b \<and> ApartmentSchema Number b = Inr d \<and> record_invariants d
                 \<and> create client d db = Some (a, db'))"
    using POST_created [of Number client _ db] by blast
  have frame: "\<forall>body. snd (POST Number client body db) \<noteq> db
         \<longrightarrow> (\<exists>a. fst (POST Number client body db) = Created201 a)"
    using POST_changes_only_on_201 [of Number client _ db] by blast
  have all: "list_all record_invariants (rows start)
        \<longrightarrow> list_all record_invariants (rows (run_posts Number store bodies start))"
    using run_posts_rows [of start Number bodies] by blast
  have minus_five: "POST Number client (Some negative_price_body) db
        = (Invalid400 ''Validation failed'' [([Key ''price''], Some ''Price must be greater than 0'')], db)"
    using POST_invalid [OF negative_price_issues] .
  from invalid created frame all minus_five show ?thesis
    by (intro conjI)
qed

theorem stored_records_are_valid_witness:
  "list_all record_invariants
     (rows (run_posts (\<lambda>s. NaN) store [Some example_body, Some negative_price_body, None]
        \<lparr>rows = [], next_id = 0, clock = 0\<rparr>))
   \<and> rows (run_posts (\<lambda>s. NaN) store [Some example_body, Some negative_price_body, None]
        \<lparr>rows = [], next_id = 0, clock = 0\<rparr>) = [stored_record example_input 0 0]
   \<and> POST (\<lambda>s. NaN) store (Some negative_price_body) \<lparr>rows = [], next_id = 0, clock = 0\<rparr>
        = (Invalid400 ''Validation failed'' [([Key ''price''], Some ''Price must be greater than 0'')],
           \<lparr>rows = [], next_id = 0, clock = 0\<rparr>)"
proof -
  let ?db = "\<lparr>rows = [], next_id = 0, clock = 0\<rparr>"
  let ?bodies = "[Some example_body, Some negative_price_body, None]"
  note inst = stored_records_are_valid
    [where Number = "\<lambda>s. NaN" and client = store and db = ?db and start = ?db and bodies = ?bodies]
  have "list_all record_invariants (rows ?db)"
    by simp
  with inst have first: "list_all record_invariants (rows (run_posts (\<lambda>s. NaN) store ?bodies ?db))"
    by blast
  have second: "rows (run_posts (\<lambda>s. NaN) store ?bodies ?db) = [stored_record example_input 0 0]"
    by (simp add: POST_def example_body_parsed negative_price_issues store_def store_insert_def Let_def)
  from inst have third: "POST (\<lambda>s. NaN) store (Some negative_price_body) ?db
        = (Invalid400 ''Validation failed'' [([Key ''price''], Some ''Price must be greater than 0'')], ?db)"
    by blast
  from first second third show ?thesis by blast
qed

end
